theory Spec2Isabelle
  imports Complex_Main
begin

section \<open>Conventions of the embedding\<close>

text \<open>
  The development embeds the reporting framework of the repository
  (file \<^verbatim>\<open>011-reporting-framework.js\<close>): the duration parser, the phase resolver, the metric
  registry and recorder, and the table builders of the aggregator.

  \<^item> A JavaScript number that counts requests is a \<open>nat\<close> (a k6 Counter fed by \<open>add(1)\<close>);
    every other number (a response time, a statistic, a threshold, elapsed seconds) is a
    \<open>rat\<close>: doubles are read as the exact numbers they denote, without rounding, NaN or
    infinities.
  \<^item> A JavaScript object used as a dictionary is a map on its own properties; an absent
    property is \<open>None\<close>, as \<open>undefined\<close> is. Property names inherited from
    \<open>Object.prototype\<close> are not part of the model.
  \<^item> \<open>null\<close> and \<open>undefined\<close> are \<open>None\<close>.
\<close>

section \<open>Duration parser\<close>

















section \<open>Phase resolver\<close>

record phase =
  phase_name :: string
  duration :: string
  target :: nat

record scenario_config =
  name :: "string option"
  startTime :: "string option"
  phases :: "phase list option"








text \<open>The scenario of the specification's example, and the scenario \<^verbatim>\<open>stress_test\<close> of the
  repository's sample script, which starts ten seconds into the run.\<close>

definition two_phase_config :: scenario_config where
  "two_phase_config =
     \<lparr>name = None, startTime = Some ''0s'',
      phases = Some [\<lparr>phase_name = ''ramp'', duration = ''1m'', target = 10\<rparr>,
                     \<lparr>phase_name = ''hold'', duration = ''2m'', target = 20\<rparr>]\<rparr>"


section \<open>Metric registry and recorder\<close>

text \<open>
  A MetricSet holds two k6 Counters, a Trend and one Counter for each tracked status
  code. A Counter is modelled by the number it has accumulated and a Trend by the list of
  the samples added to it, in order.
\<close>

record metric_set =
  ms_count :: nat
  ms_failed :: nat
  ms_duration :: "rat list"
  ms_statusCodes :: "nat \<rightharpoonup> nat"

text \<open>
  \<^verbatim>\<open>metrics[scenario]\<close> is one object: it holds the MetricSet of every API under the name of
  the API and, under the name \<^verbatim>\<open>phases\<close>, the object that maps a phase index to the
  MetricSets of that phase. A \<open>slot\<close> is an object stored under a name of
  \<^verbatim>\<open>metrics[scenario]\<close>: its fields \<^verbatim>\<open>count\<close>, \<^verbatim>\<open>failed\<close>, \<^verbatim>\<open>duration\<close> and \<^verbatim>\<open>statusCodes\<close>
  (all four, or none of them) and its properties named by a phase index.
\<close>

record slot =
  slot_metrics :: "metric_set option"
  slot_phases :: "nat \<rightharpoonup> (string \<rightharpoonup> metric_set)"

type_synonym scenario_metrics = "string \<rightharpoonup> slot"

type_synonym registry = "string \<rightharpoonup> scenario_metrics"

definition statusCodes :: "nat list" where
  "statusCodes = [400, 401, 403, 404, 500, 502, 503, 504]"

text \<open>The object literal \<^verbatim>\<open>{count: new Counter(..), failed: .., duration: .., statusCodes: {}}\<close>
  after the loop that adds a Counter for every tracked code.\<close>

definition new_metric_set :: metric_set where
  "new_metric_set =
     \<lparr>ms_count = 0, ms_failed = 0, ms_duration = [],
      ms_statusCodes = fold (\<lambda>code codes. codes(code \<mapsto> 0)) statusCodes Map.empty\<rparr>"

text \<open>\<^verbatim>\<open>metrics[scenario].phases[phaseIndex] = {}\<close> followed by the loop over the APIs. The name
  \<^verbatim>\<open>phases\<close> is always present when this runs: the first statement of the scenario loop
  sets it.\<close>

definition set_phase :: "scenario_metrics \<Rightarrow> nat \<Rightarrow> string list \<Rightarrow> scenario_metrics" where
  "set_phase sm phaseIndex apis =
     (case sm ''phases'' of
        None \<Rightarrow> sm
      | Some pslot \<Rightarrow>
          sm(''phases'' \<mapsto> pslot\<lparr>slot_phases :=
               (slot_phases pslot)(phaseIndex \<mapsto>
                  fold (\<lambda>api pm. pm(api \<mapsto> new_metric_set)) apis Map.empty)\<rparr>))"

text \<open>The body of the loop over the scenarios.\<close>

definition init_scenario :: "string list \<Rightarrow> scenario_config option \<Rightarrow> scenario_metrics" where
  "init_scenario apis config =
     (let sm0 = [''phases'' \<mapsto> \<lparr>slot_metrics = None, slot_phases = Map.empty\<rparr>];
          sm1 = fold (\<lambda>api sm. sm(api \<mapsto> \<lparr>slot_metrics = Some new_metric_set,
                                              slot_phases = Map.empty\<rparr>)) apis sm0
      in case config of
           None \<Rightarrow> sm1
         | Some c \<Rightarrow>
             (case phases c of
                None \<Rightarrow> sm1
              | Some ps \<Rightarrow>
                  fold (\<lambda>phaseIndex sm. set_phase sm phaseIndex apis) [0..<length ps] sm1))"

definition initializeMetrics ::
  "string list \<Rightarrow> string list \<Rightarrow> (string \<rightharpoonup> scenario_config) \<Rightarrow> registry" where
  "initializeMetrics apis scenarios scenarioConfig =
     fold (\<lambda>scenario metrics. metrics(scenario \<mapsto> init_scenario apis (scenarioConfig scenario)))
       scenarios Map.empty"

text \<open>The response of a request: \<^verbatim>\<open>res.status\<close> and \<^verbatim>\<open>res.timings.duration\<close>.\<close>

record response =
  res_status :: nat
  res_duration :: rat

text \<open>
  The update that \<^verbatim>\<open>recordMetrics\<close> applies to a MetricSet; the source writes it out twice,
  for the scenario level and for the phase level.
\<close>

definition addSample :: "metric_set \<Rightarrow> response \<Rightarrow> metric_set" where
  "addSample ms res =
     (let ms1 = ms\<lparr>ms_count := ms_count ms + 1\<rparr>;
          ms2 = ms1\<lparr>ms_duration := ms_duration ms1 @ [res_duration res]\<rparr>
      in if res_status res \<ge> 400 then
           (let ms3 = ms2\<lparr>ms_failed := ms_failed ms2 + 1\<rparr> in
            case ms_statusCodes ms3 (res_status res) of
              None \<Rightarrow> ms3
            | Some n \<Rightarrow> ms3\<lparr>ms_statusCodes := (ms_statusCodes ms3)(res_status res \<mapsto> n + 1)\<rparr>)
         else ms2)"

datatype js_error = TypeError

text \<open>
  The first \<^verbatim>\<open>if\<close> of \<^verbatim>\<open>recordMetrics\<close>. The test \<^verbatim>\<open>metrics[scenario]?.[api]\<close> holds for any
  object stored under the name \<open>api\<close>; \<^verbatim>\<open>.count.add(1)\<close> then raises a TypeError when that
  object has no field \<^verbatim>\<open>count\<close>, before anything is changed.
\<close>

definition record_scenario_level ::
  "registry \<Rightarrow> string \<Rightarrow> string \<Rightarrow> response \<Rightarrow> js_error + registry" where
  "record_scenario_level metrics api scenario res =
     (case metrics scenario of
        None \<Rightarrow> Inr metrics
      | Some sm \<Rightarrow>
          (case sm api of
             None \<Rightarrow> Inr metrics
           | Some s \<Rightarrow>
               (case slot_metrics s of
                  None \<Rightarrow> Inl TypeError
                | Some ms \<Rightarrow>
                    Inr (metrics(scenario \<mapsto>
                           sm(api \<mapsto> s\<lparr>slot_metrics := Some (addSample ms res)\<rparr>))))))"

text \<open>The second \<^verbatim>\<open>if\<close>: \<^verbatim>\<open>phaseIndex !== null && metrics[scenario]?.phases?.[phaseIndex]?.[api]\<close>.\<close>

definition record_phase_level ::
  "registry \<Rightarrow> string \<Rightarrow> string \<Rightarrow> nat option \<Rightarrow> response \<Rightarrow> registry" where
  "record_phase_level metrics api scenario phaseIndex res =
     (case phaseIndex of
        None \<Rightarrow> metrics
      | Some i \<Rightarrow>
          (case metrics scenario of
             None \<Rightarrow> metrics
           | Some sm \<Rightarrow>
               (case sm ''phases'' of
                  None \<Rightarrow> metrics
                | Some pslot \<Rightarrow>
                    (case slot_phases pslot i of
                       None \<Rightarrow> metrics
                     | Some pm \<Rightarrow>
                         (case pm api of
                            None \<Rightarrow> metrics
                          | Some pms \<Rightarrow>
                              metrics(scenario \<mapsto>
                                sm(''phases'' \<mapsto> pslot\<lparr>slot_phases :=
                                     (slot_phases pslot)(i \<mapsto>
                                        pm(api \<mapsto> addSample pms res))\<rparr>)))))))"

definition recordMetrics ::
  "registry \<Rightarrow> string \<Rightarrow> string \<Rightarrow> nat option \<Rightarrow> response \<Rightarrow> js_error + registry" where
  "recordMetrics metrics api scenario phaseIndex res =
     (case record_scenario_level metrics api scenario res of
        Inl e \<Rightarrow> Inl e
      | Inr metrics1 \<Rightarrow> Inr (record_phase_level metrics1 api scenario phaseIndex res))"

text \<open>Calling \<^verbatim>\<open>recordMetrics\<close> once for each response of a list, for one key.\<close>

fun recordAll ::
  "registry \<Rightarrow> string \<Rightarrow> string \<Rightarrow> nat option \<Rightarrow> response list \<Rightarrow> js_error + registry" where
  "recordAll metrics api scenario phaseIndex [] = Inr metrics"
| "recordAll metrics api scenario phaseIndex (res # rs) =
     (case recordMetrics metrics api scenario phaseIndex res of
        Inl e \<Rightarrow> Inl e
      | Inr metrics1 \<Rightarrow> recordAll metrics1 api scenario phaseIndex rs)"

text \<open>The MetricSet registered for a key: \<^verbatim>\<open>metrics[scenario][api]\<close> when it has the four
  fields, and \<^verbatim>\<open>metrics[scenario].phases[phaseIndex][api]\<close>.\<close>

definition scenarioLevel :: "registry \<Rightarrow> string \<Rightarrow> string \<Rightarrow> metric_set option" where
  "scenarioLevel metrics api scenario =
     (case metrics scenario of
        None \<Rightarrow> None
      | Some sm \<Rightarrow> (case sm api of None \<Rightarrow> None | Some s \<Rightarrow> slot_metrics s))"

definition phaseLevel :: "registry \<Rightarrow> string \<Rightarrow> string \<Rightarrow> nat \<Rightarrow> metric_set option" where
  "phaseLevel metrics api scenario phaseIndex =
     (case metrics scenario of
        None \<Rightarrow> None
      | Some sm \<Rightarrow>
          (case sm ''phases'' of
             None \<Rightarrow> None
           | Some pslot \<Rightarrow>
               (case slot_phases pslot phaseIndex of None \<Rightarrow> None | Some pm \<Rightarrow> pm api)))"

text \<open>The number of phases a scenario declares: none without a configuration or without a
  list of phases.\<close>

definition declaredPhases :: "(string \<rightharpoonup> scenario_config) \<Rightarrow> string \<Rightarrow> nat" where
  "declaredPhases scenarioConfig scenario =
     (case scenarioConfig scenario of
        None \<Rightarrow> 0
      | Some c \<Rightarrow> (case phases c of None \<Rightarrow> 0 | Some ps \<Rightarrow> length ps))"

text \<open>The registry of one API and of the scenario of the specification's example.\<close>

definition example_registry :: registry where
  "example_registry = initializeMetrics [''home''] [''load''] [''load'' \<mapsto> two_phase_config]"

section \<open>Aggregator\<close>

subsection \<open>Numbers as text\<close>





subsection \<open>The summary data\<close>












subsection \<open>Summary rows\<close>











subsection \<open>The aggregate over all scenarios\<close>








subsection \<open>Error distribution\<close>





subsection \<open>What the claims about the tables speak of\<close>












subsection \<open>Example data\<close>








section \<open>Properties of the duration parser\<close>











section \<open>Properties of the phase resolver\<close>


















section \<open>Properties of the registry and of the recorder\<close>

lemma fold_upd_const:
  "fold (\<lambda>k m. m(k \<mapsto> v)) ks m0 x = (if x \<in> set ks then Some v else m0 x)"
  by (induction ks arbitrary: m0) auto

lemma initializeMetrics_scenario:
  "initializeMetrics apis scenarios scenarioConfig scenario =
     (if scenario \<in> set scenarios then Some (init_scenario apis (scenarioConfig scenario)) else None)"
proof -
  have "fold (\<lambda>sc metrics. metrics(sc \<mapsto> init_scenario apis (scenarioConfig sc))) scenarios m0 scenario =
      (if scenario \<in> set scenarios then Some (init_scenario apis (scenarioConfig scenario))
       else m0 scenario)" for m0
    by (induction scenarios arbitrary: m0) auto
  then show ?thesis by (simp add: initializeMetrics_def)
qed

lemma new_statusCodes:
  "ms_statusCodes new_metric_set code = (if code \<in> set statusCodes then Some 0 else None)"
  by (simp add: new_metric_set_def fold_upd_const)

lemma fold_set_phase:
  assumes "sm ''phases'' = Some pslot"
  shows "fold (\<lambda>phaseIndex sm. set_phase sm phaseIndex apis) [0..<n] sm =
     sm(''phases'' \<mapsto> pslot\<lparr>slot_phases := (\<lambda>i. if i < n
          then Some (fold (\<lambda>api pm. pm(api \<mapsto> new_metric_set)) apis Map.empty)
          else slot_phases pslot i)\<rparr>)"
proof (induction n)
  case 0
  from assms show ?case by (auto simp: fun_eq_iff)
next
  case (Suc n)
  have "fold (\<lambda>phaseIndex sm. set_phase sm phaseIndex apis) [0..<Suc n] sm =
      set_phase (fold (\<lambda>phaseIndex sm. set_phase sm phaseIndex apis) [0..<n] sm) n apis"
    by simp
  also have "\<dots> = set_phase (sm(''phases'' \<mapsto> pslot\<lparr>slot_phases := (\<lambda>i. if i < n
          then Some (fold (\<lambda>api pm. pm(api \<mapsto> new_metric_set)) apis Map.empty)
          else slot_phases pslot i)\<rparr>)) n apis"
    by (simp only: Suc)
  also have "\<dots> = sm(''phases'' \<mapsto> pslot\<lparr>slot_phases := (\<lambda>i. if i < Suc n
          then Some (fold (\<lambda>api pm. pm(api \<mapsto> new_metric_set)) apis Map.empty)
          else slot_phases pslot i)\<rparr>)"
    by (auto simp: set_phase_def fun_eq_iff less_Suc_eq)
  finally show ?case .
qed

lemma init_scenario_lookup:
  "init_scenario apis config k =
     (if k = ''phases'' then
        Some \<lparr>slot_metrics = (if ''phases'' \<in> set apis then Some new_metric_set else None),
              slot_phases = (\<lambda>i. if i < (case config of None \<Rightarrow> 0
                                   | Some c \<Rightarrow> (case phases c of None \<Rightarrow> 0 | Some ps \<Rightarrow> length ps))
                   then Some (fold (\<lambda>api pm. pm(api \<mapsto> new_metric_set)) apis Map.empty)
                   else None)\<rparr>
      else if k \<in> set apis then
        Some \<lparr>slot_metrics = Some new_metric_set, slot_phases = Map.empty\<rparr>
      else None)"
proof -
  let ?sm1 = "fold (\<lambda>api sm. sm(api \<mapsto> \<lparr>slot_metrics = Some new_metric_set,
                                              slot_phases = Map.empty\<rparr>)) apis
                    [''phases'' \<mapsto> \<lparr>slot_metrics = None, slot_phases = Map.empty\<rparr>]"
  have sm1: "?sm1 x =
     (if x \<in> set apis then Some \<lparr>slot_metrics = Some new_metric_set, slot_phases = Map.empty\<rparr>
      else if x = ''phases'' then Some \<lparr>slot_metrics = None, slot_phases = Map.empty\<rparr>
      else None)" for x
    by (simp add: fold_upd_const)
  have ph: "?sm1 ''phases'' = Some \<lparr>slot_metrics = (if ''phases'' \<in> set apis then Some new_metric_set else None),
      slot_phases = Map.empty\<rparr>"
    by (simp add: sm1)
  show ?thesis
  proof (cases config)
    case None
    then show ?thesis by (simp add: init_scenario_def sm1)
  next
    case (Some c)
    show ?thesis
    proof (cases "phases c")
      case None
      with Some show ?thesis by (simp add: init_scenario_def sm1)
    next
      case (Some ps)
      with \<open>config = Some c\<close> have "init_scenario apis config =
          fold (\<lambda>phaseIndex sm. set_phase sm phaseIndex apis) [0..<length ps] ?sm1"
        by (simp add: init_scenario_def)
      also note fold_set_phase[where sm = ?sm1, OF ph, of apis "length ps"]
      finally show ?thesis using Some \<open>config = Some c\<close> by (simp add: sm1 cong: if_cong)
    qed
  qed
qed

lemma scenarioLevel_initializeMetrics:
  "scenarioLevel (initializeMetrics apis scenarios scenarioConfig) api scenario =
     (if scenario \<in> set scenarios \<and> api \<in> set apis then Some new_metric_set else None)"
  by (simp add: scenarioLevel_def initializeMetrics_scenario init_scenario_lookup)

lemma phaseLevel_initializeMetrics:
  "phaseLevel (initializeMetrics apis scenarios scenarioConfig) api scenario i =
     (if scenario \<in> set scenarios \<and> api \<in> set apis \<and> i < declaredPhases scenarioConfig scenario
      then Some new_metric_set else None)"
  by (simp add: phaseLevel_def initializeMetrics_scenario init_scenario_lookup fold_upd_const
      declaredPhases_def)

lemma addSample_count: "ms_count (addSample ms res) = ms_count ms + 1"
  by (simp add: addSample_def Let_def split: option.splits)

lemma addSample_duration: "ms_duration (addSample ms res) = ms_duration ms @ [res_duration res]"
  by (simp add: addSample_def Let_def split: option.splits)

lemma addSample_failed:
  "ms_failed (addSample ms res) = (if 400 \<le> res_status res then ms_failed ms + 1 else ms_failed ms)"
  by (simp add: addSample_def Let_def split: option.splits)

lemma addSample_statusCodes:
  "ms_statusCodes (addSample ms res) code =
     (if 400 \<le> res_status res \<and> code = res_status res
      then map_option (\<lambda>n. n + 1) (ms_statusCodes ms code)
      else ms_statusCodes ms code)"
  by (simp add: addSample_def Let_def split: option.splits)

lemma scenarioLevel_record_scenario_level:
  assumes "scenarioLevel metrics api scenario = Some ms"
  shows "\<exists>m1. record_scenario_level metrics api scenario res = Inr m1
       \<and> scenarioLevel m1 api scenario = Some (addSample ms res)
       \<and> (\<forall>a s. (a, s) \<noteq> (api, scenario) \<longrightarrow> scenarioLevel m1 a s = scenarioLevel metrics a s)
       \<and> (\<forall>a s j. phaseLevel m1 a s j = phaseLevel metrics a s j)"
  using assms
  by (auto simp: record_scenario_level_def scenarioLevel_def phaseLevel_def split: option.splits)

lemma record_phase_level_None:
  assumes "phaseLevel metrics api scenario i = None"
  shows "record_phase_level metrics api scenario (Some i) res = metrics"
  using assms
  by (auto simp: record_phase_level_def phaseLevel_def split: option.splits)

lemma record_phase_level_Some:
  assumes "phaseLevel metrics api scenario i = Some pms"
  shows "phaseLevel (record_phase_level metrics api scenario (Some i) res) api scenario i
           = Some (addSample pms res)
       \<and> (\<forall>a s j. (a, s, j) \<noteq> (api, scenario, i) \<longrightarrow>
             phaseLevel (record_phase_level metrics api scenario (Some i) res) a s j
               = phaseLevel metrics a s j)
       \<and> (\<forall>a s. scenarioLevel (record_phase_level metrics api scenario (Some i) res) a s
               = scenarioLevel metrics a s)"
  using assms
  by (auto simp: record_phase_level_def scenarioLevel_def phaseLevel_def split: option.splits)


lemma recordMetrics_both:
  assumes sl: "scenarioLevel metrics api scenario = Some ms"
    and pl: "phaseLevel metrics api scenario i = Some pms"
  shows "\<exists>metrics'. recordMetrics metrics api scenario (Some i) res = Inr metrics'
       \<and> scenarioLevel metrics' api scenario = Some (addSample ms res)
       \<and> phaseLevel metrics' api scenario i = Some (addSample pms res)
       \<and> (\<forall>a s. (a, s) \<noteq> (api, scenario) \<longrightarrow> scenarioLevel metrics' a s = scenarioLevel metrics a s)
       \<and> (\<forall>a s j. (a, s, j) \<noteq> (api, scenario, i) \<longrightarrow> phaseLevel metrics' a s j = phaseLevel metrics a s j)"
proof -
  from scenarioLevel_record_scenario_level[OF sl, of res] obtain m1 where
    m1: "record_scenario_level metrics api scenario res = Inr m1"
    and s1: "scenarioLevel m1 api scenario = Some (addSample ms res)"
    and f1: "\<forall>a s. (a, s) \<noteq> (api, scenario) \<longrightarrow> scenarioLevel m1 a s = scenarioLevel metrics a s"
    and p1: "\<forall>a s j. phaseLevel m1 a s j = phaseLevel metrics a s j"
    by blast
  from p1 pl have pl1: "phaseLevel m1 api scenario i = Some pms" by simp
  note ph = record_phase_level_Some[OF pl1, of res]
  have "recordMetrics metrics api scenario (Some i) res =
      Inr (record_phase_level m1 api scenario (Some i) res)"
    by (simp add: recordMetrics_def m1)
  with ph s1 f1 p1 show ?thesis by simp
qed

lemma recordAll_successes:
  assumes "scenarioLevel metrics api scenario = Some ms"
    and "phaseLevel metrics api scenario i = Some pms"
    and "\<forall>res \<in> set rs. res_status res < 400"
  shows "\<exists>metrics' ms' pms'. recordAll metrics api scenario (Some i) rs = Inr metrics'
       \<and> scenarioLevel metrics' api scenario = Some ms'
       \<and> phaseLevel metrics' api scenario i = Some pms'
       \<and> ms_count ms' = ms_count ms + length rs \<and> ms_failed ms' = ms_failed ms
       \<and> ms_count pms' = ms_count pms + length rs \<and> ms_failed pms' = ms_failed pms"
  using assms
proof (induction rs arbitrary: metrics ms pms)
  case Nil
  then show ?case by simp
next
  case (Cons r rs)
  from recordMetrics_both[OF Cons.prems(1) Cons.prems(2), of r] obtain m1 where
    m1: "recordMetrics metrics api scenario (Some i) r = Inr m1"
    and s1: "scenarioLevel m1 api scenario = Some (addSample ms r)"
    and p1: "phaseLevel m1 api scenario i = Some (addSample pms r)"
    by blast
  from Cons.prems(3) have ok: "res_status r < 400" and rest: "\<forall>res \<in> set rs. res_status res < 400"
    by simp_all
  from Cons.IH[OF s1 p1 rest] obtain metrics' ms' pms' where
    r: "recordAll m1 api scenario (Some i) rs = Inr metrics'"
      "scenarioLevel metrics' api scenario = Some ms'"
      "phaseLevel metrics' api scenario i = Some pms'"
      "ms_count ms' = ms_count (addSample ms r) + length rs"
      "ms_failed ms' = ms_failed (addSample ms r)"
      "ms_count pms' = ms_count (addSample pms r) + length rs"
      "ms_failed pms' = ms_failed (addSample pms r)"
    by blast
  from r ok m1 show ?case
    by (simp add: addSample_count addSample_failed)
qed

lemma recordMetrics_no_object:
  assumes "metrics scenario = None \<or> (\<exists>sm. metrics scenario = Some sm \<and> sm api = None)"
    and "phaseIndex = None \<or> (\<exists>i. phaseIndex = Some i \<and> phaseLevel metrics api scenario i = None)"
  shows "recordMetrics metrics api scenario phaseIndex res = Inr metrics"
proof -
  from assms(1) have "record_scenario_level metrics api scenario res = Inr metrics"
    by (auto simp: record_scenario_level_def)
  moreover from assms(2) have "record_phase_level metrics api scenario phaseIndex res = metrics"
    by (auto simp: record_phase_level_None) (simp add: record_phase_level_def)
  ultimately show ?thesis by (simp add: recordMetrics_def)
qed

lemma declaredPhases_example: "declaredPhases [''load'' \<mapsto> two_phase_config] ''load'' = 2"
  by (simp add: declaredPhases_def two_phase_config_def)

text \<open>
  Claim C4. When the scenario-level MetricSet of \<open>(api, scenario)\<close> and the phase-level
  MetricSet of \<open>(api, scenario, i)\<close> are registered, a call of \<open>recordMetrics\<close> with phase
  \<open>i\<close> returns normally and, at both levels, adds 1 to the request counter and appends the
  duration; for a status of 400 or more it also adds 1 to both failure counters and to the
  counter of that status when it is tracked, and leaves every other status counter as it
  was, as it leaves every MetricSet of another key. Hence \<open>N\<close> calls with statuses below
  400 on a fresh registry give count \<open>N\<close> and failed 0 at both levels, and one call with
  status 500 gives failed 1 and a 500 counter of 1 at both levels, the other tracked
  counters staying 0.
\<close>

theorem recordMetrics_updates_both_levels:
  "(scenarioLevel metrics api scenario = Some ms \<and> phaseLevel metrics api scenario i = Some pms \<longrightarrow>
      (\<exists>metrics' ms' pms'.
          recordMetrics metrics api scenario (Some i) res = Inr metrics'
        \<and> scenarioLevel metrics' api scenario = Some ms'
        \<and> phaseLevel metrics' api scenario i = Some pms'
        \<and> ms_count ms' = ms_count ms + 1
        \<and> ms_count pms' = ms_count pms + 1
        \<and> ms_duration ms' = ms_duration ms @ [res_duration res]
        \<and> ms_duration pms' = ms_duration pms @ [res_duration res]
        \<and> ms_failed ms' = (if 400 \<le> res_status res then ms_failed ms + 1 else ms_failed ms)
        \<and> ms_failed pms' = (if 400 \<le> res_status res then ms_failed pms + 1 else ms_failed pms)
        \<and> (\<forall>code. ms_statusCodes ms' code =
              (if 400 \<le> res_status res \<and> code = res_status res
               then map_option (\<lambda>n. n + 1) (ms_statusCodes ms code)
               else ms_statusCodes ms code))
        \<and> (\<forall>code. ms_statusCodes pms' code =
              (if 400 \<le> res_status res \<and> code = res_status res
               then map_option (\<lambda>n. n + 1) (ms_statusCodes pms code)
               else ms_statusCodes pms code))
        \<and> (\<forall>a s. (a, s) \<noteq> (api, scenario) \<longrightarrow>
              scenarioLevel metrics' a s = scenarioLevel metrics a s)
        \<and> (\<forall>a s j. (a, s, j) \<noteq> (api, scenario, i) \<longrightarrow>
              phaseLevel metrics' a s j = phaseLevel metrics a s j)))
   \<and> (api \<in> set apis \<and> scenario \<in> set scenarios \<and> i < declaredPhases scenarioConfig scenario
        \<and> (\<forall>r \<in> set rs. res_status r < 400) \<longrightarrow>
      (\<exists>metrics' ms' pms'.
          recordAll (initializeMetrics apis scenarios scenarioConfig) api scenario (Some i) rs
            = Inr metrics'
        \<and> scenarioLevel metrics' api scenario = Some ms'
        \<and> phaseLevel metrics' api scenario i = Some pms'
        \<and> ms_count ms' = length rs \<and> ms_failed ms' = 0
        \<and> ms_count pms' = length rs \<and> ms_failed pms' = 0))
   \<and> (api \<in> set apis \<and> scenario \<in> set scenarios \<and> i < declaredPhases scenarioConfig scenario
        \<and> res_status res = 500 \<longrightarrow>
      (\<exists>metrics' ms' pms'.
          recordMetrics (initializeMetrics apis scenarios scenarioConfig) api scenario (Some i) res
            = Inr metrics'
        \<and> scenarioLevel metrics' api scenario = Some ms'
        \<and> phaseLevel metrics' api scenario i = Some pms'
        \<and> ms_failed ms' = 1 \<and> ms_failed pms' = 1
        \<and> ms_statusCodes ms' 500 = Some 1 \<and> ms_statusCodes pms' 500 = Some 1
        \<and> (\<forall>code \<in> set statusCodes. code \<noteq> 500 \<longrightarrow>
              ms_statusCodes ms' code = Some 0 \<and> ms_statusCodes pms' code = Some 0)))"
proof (intro conjI impI)
  assume a: "scenarioLevel metrics api scenario = Some ms \<and> phaseLevel metrics api scenario i = Some pms"
  from recordMetrics_both[of metrics api scenario ms i pms res] a obtain metrics' where
    r: "recordMetrics metrics api scenario (Some i) res = Inr metrics'"
      "scenarioLevel metrics' api scenario = Some (addSample ms res)"
      "phaseLevel metrics' api scenario i = Some (addSample pms res)"
      "\<forall>a s. (a, s) \<noteq> (api, scenario) \<longrightarrow> scenarioLevel metrics' a s = scenarioLevel metrics a s"
      "\<forall>a s j. (a, s, j) \<noteq> (api, scenario, i) \<longrightarrow> phaseLevel metrics' a s j = phaseLevel metrics a s j"
    by blast
  show "\<exists>metrics' ms' pms'.
          recordMetrics metrics api scenario (Some i) res = Inr metrics'
        \<and> scenarioLevel metrics' api scenario = Some ms'
        \<and> phaseLevel metrics' api scenario i = Some pms'
        \<and> ms_count ms' = ms_count ms + 1
        \<and> ms_count pms' = ms_count pms + 1
        \<and> ms_duration ms' = ms_duration ms @ [res_duration res]
        \<and> ms_duration pms' = ms_duration pms @ [res_duration res]
        \<and> ms_failed ms' = (if 400 \<le> res_status res then ms_failed ms + 1 else ms_failed ms)
        \<and> ms_failed pms' = (if 400 \<le> res_status res then ms_failed pms + 1 else ms_failed pms)
        \<and> (\<forall>code. ms_statusCodes ms' code =
              (if 400 \<le> res_status res \<and> code = res_status res
               then map_option (\<lambda>n. n + 1) (ms_statusCodes ms code)
               else ms_statusCodes ms code))
        \<and> (\<forall>code. ms_statusCodes pms' code =
              (if 400 \<le> res_status res \<and> code = res_status res
               then map_option (\<lambda>n. n + 1) (ms_statusCodes pms code)
               else ms_statusCodes pms code))
        \<and> (\<forall>a s. (a, s) \<noteq> (api, scenario) \<longrightarrow>
              scenarioLevel metrics' a s = scenarioLevel metrics a s)
        \<and> (\<forall>a s j. (a, s, j) \<noteq> (api, scenario, i) \<longrightarrow>
              phaseLevel metrics' a s j = phaseLevel metrics a s j)"
    apply (rule exI[of _ metrics'], rule exI[of _ "addSample ms res"],
        rule exI[of _ "addSample pms res"])
    using r
    apply (simp only: addSample_count addSample_duration addSample_failed addSample_statusCodes)
    apply simp
    done
next
  assume a: "api \<in> set apis \<and> scenario \<in> set scenarios \<and> i < declaredPhases scenarioConfig scenario
        \<and> (\<forall>r \<in> set rs. res_status r < 400)"
  then have sl: "scenarioLevel (initializeMetrics apis scenarios scenarioConfig) api scenario
      = Some new_metric_set"
    and pl: "phaseLevel (initializeMetrics apis scenarios scenarioConfig) api scenario i
      = Some new_metric_set"
    by (simp_all add: scenarioLevel_initializeMetrics phaseLevel_initializeMetrics)
  from a have ok: "\<forall>r \<in> set rs. res_status r < 400" by simp
  from recordAll_successes[OF sl pl ok]
  show "\<exists>metrics' ms' pms'.
          recordAll (initializeMetrics apis scenarios scenarioConfig) api scenario (Some i) rs
            = Inr metrics'
        \<and> scenarioLevel metrics' api scenario = Some ms'
        \<and> phaseLevel metrics' api scenario i = Some pms'
        \<and> ms_count ms' = length rs \<and> ms_failed ms' = 0
        \<and> ms_count pms' = length rs \<and> ms_failed pms' = 0"
    by (simp add: new_metric_set_def)
next
  assume a: "api \<in> set apis \<and> scenario \<in> set scenarios \<and> i < declaredPhases scenarioConfig scenario
        \<and> res_status res = 500"
  then have sl: "scenarioLevel (initializeMetrics apis scenarios scenarioConfig) api scenario
      = Some new_metric_set"
    and pl: "phaseLevel (initializeMetrics apis scenarios scenarioConfig) api scenario i
      = Some new_metric_set"
    by (simp_all add: scenarioLevel_initializeMetrics phaseLevel_initializeMetrics)
  from recordMetrics_both[OF sl pl, of res] obtain metrics' where
    r: "recordMetrics (initializeMetrics apis scenarios scenarioConfig) api scenario (Some i) res
          = Inr metrics'"
      "scenarioLevel metrics' api scenario = Some (addSample new_metric_set res)"
      "phaseLevel metrics' api scenario i = Some (addSample new_metric_set res)"
    by blast
  have f: "ms_failed (addSample new_metric_set res) = 1"
    using a by (simp add: addSample_failed new_metric_set_def)
  have c500: "ms_statusCodes (addSample new_metric_set res) 500 = Some 1"
    using a by (simp add: addSample_statusCodes new_statusCodes statusCodes_def)
  have others: "\<forall>code \<in> set statusCodes. code \<noteq> 500 \<longrightarrow>
      ms_statusCodes (addSample new_metric_set res) code = Some 0"
    using a by (simp add: addSample_statusCodes new_statusCodes)
  from r f c500 others
  show "\<exists>metrics' ms' pms'.
          recordMetrics (initializeMetrics apis scenarios scenarioConfig) api scenario (Some i) res
            = Inr metrics'
        \<and> scenarioLevel metrics' api scenario = Some ms'
        \<and> phaseLevel metrics' api scenario i = Some pms'
        \<and> ms_failed ms' = 1 \<and> ms_failed pms' = 1
        \<and> ms_statusCodes ms' 500 = Some 1 \<and> ms_statusCodes pms' 500 = Some 1
        \<and> (\<forall>code \<in> set statusCodes. code \<noteq> 500 \<longrightarrow>
              ms_statusCodes ms' code = Some 0 \<and> ms_statusCodes pms' code = Some 0)"
    by auto
qed

text \<open>The theorem on the example registry: two successful requests, and one request that
  fails with status 500, recorded for phase 1.\<close>

theorem recordMetrics_updates_both_levels_witness:
  "(\<exists>metrics' ms' pms'.
      recordAll example_registry ''home'' ''load'' (Some 1)
        [\<lparr>res_status = 200, res_duration = 5\<rparr>, \<lparr>res_status = 302, res_duration = 7\<rparr>] = Inr metrics'
    \<and> scenarioLevel metrics' ''home'' ''load'' = Some ms'
    \<and> phaseLevel metrics' ''home'' ''load'' 1 = Some pms'
    \<and> ms_count ms' = 2 \<and> ms_failed ms' = 0 \<and> ms_count pms' = 2 \<and> ms_failed pms' = 0)
   \<and> (\<exists>metrics' ms' pms'.
      recordMetrics example_registry ''home'' ''load'' (Some 1)
        \<lparr>res_status = 500, res_duration = 120\<rparr> = Inr metrics'
    \<and> scenarioLevel metrics' ''home'' ''load'' = Some ms'
    \<and> phaseLevel metrics' ''home'' ''load'' 1 = Some pms'
    \<and> ms_count ms' = 1 \<and> ms_count pms' = 1
    \<and> ms_duration ms' = [120] \<and> ms_duration pms' = [120]
    \<and> ms_failed ms' = 1 \<and> ms_failed pms' = 1
    \<and> ms_statusCodes ms' 500 = Some 1 \<and> ms_statusCodes pms' 500 = Some 1
    \<and> ms_statusCodes ms' 404 = Some 0 \<and> ms_statusCodes pms' 404 = Some 0)"
proof -
  have sl: "scenarioLevel example_registry ''home'' ''load'' = Some new_metric_set"
    by (simp add: example_registry_def scenarioLevel_initializeMetrics)
  have pl: "phaseLevel example_registry ''home'' ''load'' 1 = Some new_metric_set"
    by (simp add: example_registry_def phaseLevel_initializeMetrics declaredPhases_example)
  note t = recordMetrics_updates_both_levels[where metrics = example_registry
      and api = "''home''" and scenario = "''load''" and i = 1 and ms = new_metric_set
      and pms = new_metric_set and res = "\<lparr>res_status = 500, res_duration = 120\<rparr>"
      and apis = "[''home'']" and scenarios = "[''load'']"
      and scenarioConfig = "[''load'' \<mapsto> two_phase_config]"
      and rs = "[\<lparr>res_status = 200, res_duration = 5\<rparr>, \<lparr>res_status = 302, res_duration = 7\<rparr>]"]
  let ?rs = "[\<lparr>res_status = 200, res_duration = 5\<rparr>, \<lparr>res_status = 302, res_duration = 7\<rparr>]"
  have hyp: "''home'' \<in> set [''home''] \<and> ''load'' \<in> set [''load'']
      \<and> 1 < declaredPhases [''load'' \<mapsto> two_phase_config] ''load''
      \<and> (\<forall>r \<in> set ?rs. res_status r < 400)"
    by (simp add: declaredPhases_example)
  from t[THEN conjunct2, THEN conjunct1, THEN mp, OF hyp] obtain m2 ms2 pms2 where
    m2: "recordAll (initializeMetrics [''home''] [''load''] [''load'' \<mapsto> two_phase_config])
          ''home'' ''load'' (Some 1) ?rs = Inr m2"
      "scenarioLevel m2 ''home'' ''load'' = Some ms2"
      "phaseLevel m2 ''home'' ''load'' 1 = Some pms2"
      "ms_count ms2 = length ?rs" "ms_failed ms2 = 0"
      "ms_count pms2 = length ?rs" "ms_failed pms2 = 0"
    by blast
  from m2(4,6) have two: "ms_count ms2 = 2" "ms_count pms2 = 2" by simp_all
  from m2(1) have m2': "recordAll example_registry ''home'' ''load'' (Some 1) ?rs = Inr m2"
    by (simp only: example_registry_def)
  from m2' m2(2,3,5,7) two have many: "\<exists>metrics' ms' pms'.
      recordAll example_registry ''home'' ''load'' (Some 1) ?rs = Inr metrics'
    \<and> scenarioLevel metrics' ''home'' ''load'' = Some ms'
    \<and> phaseLevel metrics' ''home'' ''load'' 1 = Some pms'
    \<and> ms_count ms' = 2 \<and> ms_failed ms' = 0 \<and> ms_count pms' = 2 \<and> ms_failed pms' = 0"
    by blast
  from t sl pl obtain metrics' ms' pms' where
    one: "recordMetrics example_registry ''home'' ''load'' (Some 1)
        \<lparr>res_status = 500, res_duration = 120\<rparr> = Inr metrics'"
      "scenarioLevel metrics' ''home'' ''load'' = Some ms'"
      "phaseLevel metrics' ''home'' ''load'' 1 = Some pms'"
      "ms_count ms' = ms_count new_metric_set + 1"
      "ms_count pms' = ms_count new_metric_set + 1"
      "ms_duration ms' = ms_duration new_metric_set @ [120]"
      "ms_duration pms' = ms_duration new_metric_set @ [120]"
      "ms_failed ms' = ms_failed new_metric_set + 1"
      "ms_failed pms' = ms_failed new_metric_set + 1"
      "\<forall>code. ms_statusCodes ms' code =
              (if code = 500 then map_option (\<lambda>n. n + 1) (ms_statusCodes new_metric_set code)
               else ms_statusCodes new_metric_set code)"
      "\<forall>code. ms_statusCodes pms' code =
              (if code = 500 then map_option (\<lambda>n. n + 1) (ms_statusCodes new_metric_set code)
               else ms_statusCodes new_metric_set code)"
    by auto
  have "ms_count ms' = 1 \<and> ms_count pms' = 1
    \<and> ms_duration ms' = [120] \<and> ms_duration pms' = [120]
    \<and> ms_failed ms' = 1 \<and> ms_failed pms' = 1
    \<and> ms_statusCodes ms' 500 = Some 1 \<and> ms_statusCodes pms' 500 = Some 1
    \<and> ms_statusCodes ms' 404 = Some 0 \<and> ms_statusCodes pms' 404 = Some 0"
    using one(4-11) by (simp add: new_statusCodes statusCodes_def) (simp add: new_metric_set_def)
  with one(1-3) many show ?thesis by blast
qed


text \<open>
  Claim C10. The two levels are guarded separately. When the scenario-level MetricSet of
  \<open>(api, scenario)\<close> is registered and no phase-level MetricSet is registered for the
  phase index \<open>i\<close> of the call, \<open>recordMetrics\<close> returns normally, applies the whole update
  to the scenario-level MetricSet (count, duration, failure counter, status counter) and
  changes no phase-level MetricSet. A registry built by \<open>initializeMetrics\<close> is in that
  situation for every registered API and scenario and every index that is not below the
  number of declared phases.
\<close>

theorem recordMetrics_without_phase_set:
  "(scenarioLevel metrics api scenario = Some ms \<and> phaseLevel metrics api scenario i = None \<longrightarrow>
      (\<exists>metrics' ms'.
          recordMetrics metrics api scenario (Some i) res = Inr metrics'
        \<and> scenarioLevel metrics' api scenario = Some ms'
        \<and> ms_count ms' = ms_count ms + 1
        \<and> ms_duration ms' = ms_duration ms @ [res_duration res]
        \<and> ms_failed ms' = (if 400 \<le> res_status res then ms_failed ms + 1 else ms_failed ms)
        \<and> (\<forall>code. ms_statusCodes ms' code =
              (if 400 \<le> res_status res \<and> code = res_status res
               then map_option (\<lambda>n. n + 1) (ms_statusCodes ms code)
               else ms_statusCodes ms code))
        \<and> (\<forall>a s j. phaseLevel metrics' a s j = phaseLevel metrics a s j)))
   \<and> (api \<in> set apis \<and> scenario \<in> set scenarios \<and> declaredPhases scenarioConfig scenario \<le> i \<longrightarrow>
        scenarioLevel (initializeMetrics apis scenarios scenarioConfig) api scenario
          = Some new_metric_set
      \<and> phaseLevel (initializeMetrics apis scenarios scenarioConfig) api scenario i = None)"
proof (intro conjI impI)
  assume a: "scenarioLevel metrics api scenario = Some ms \<and> phaseLevel metrics api scenario i = None"
  then have sl: "scenarioLevel metrics api scenario = Some ms" by simp
  from scenarioLevel_record_scenario_level[OF sl, of res] obtain m1 where
    m1: "record_scenario_level metrics api scenario res = Inr m1"
    and s1: "scenarioLevel m1 api scenario = Some (addSample ms res)"
    and p1: "\<forall>a s j. phaseLevel m1 a s j = phaseLevel metrics a s j"
    by blast
  from p1 a have "phaseLevel m1 api scenario i = None" by simp
  then have "record_phase_level m1 api scenario (Some i) res = m1"
    by (rule record_phase_level_None)
  with m1 have r: "recordMetrics metrics api scenario (Some i) res = Inr m1"
    by (simp add: recordMetrics_def)
  show "\<exists>metrics' ms'.
          recordMetrics metrics api scenario (Some i) res = Inr metrics'
        \<and> scenarioLevel metrics' api scenario = Some ms'
        \<and> ms_count ms' = ms_count ms + 1
        \<and> ms_duration ms' = ms_duration ms @ [res_duration res]
        \<and> ms_failed ms' = (if 400 \<le> res_status res then ms_failed ms + 1 else ms_failed ms)
        \<and> (\<forall>code. ms_statusCodes ms' code =
              (if 400 \<le> res_status res \<and> code = res_status res
               then map_option (\<lambda>n. n + 1) (ms_statusCodes ms code)
               else ms_statusCodes ms code))
        \<and> (\<forall>a s j. phaseLevel metrics' a s j = phaseLevel metrics a s j)"
    apply (rule exI[of _ m1], rule exI[of _ "addSample ms res"])
    using r s1 p1
    apply (simp only: addSample_count addSample_duration addSample_failed addSample_statusCodes)
    apply simp
    done
next
  assume "api \<in> set apis \<and> scenario \<in> set scenarios \<and> declaredPhases scenarioConfig scenario \<le> i"
  then show "scenarioLevel (initializeMetrics apis scenarios scenarioConfig) api scenario
      = Some new_metric_set"
    by (simp add: scenarioLevel_initializeMetrics)
next
  assume "api \<in> set apis \<and> scenario \<in> set scenarios \<and> declaredPhases scenarioConfig scenario \<le> i"
  then show "phaseLevel (initializeMetrics apis scenarios scenarioConfig) api scenario i = None"
    by (simp add: phaseLevel_initializeMetrics)
qed

text \<open>The theorem on the example registry, whose scenario declares the phases 0 and 1, at
  phase index 2.\<close>

theorem recordMetrics_without_phase_set_witness:
  "scenarioLevel example_registry ''home'' ''load'' = Some new_metric_set
   \<and> phaseLevel example_registry ''home'' ''load'' 2 = None
   \<and> phaseLevel example_registry ''home'' ''load'' 1 = Some new_metric_set
   \<and> (\<exists>metrics' ms'.
        recordMetrics example_registry ''home'' ''load'' (Some 2)
          \<lparr>res_status = 503, res_duration = 40\<rparr> = Inr metrics'
      \<and> scenarioLevel metrics' ''home'' ''load'' = Some ms'
      \<and> ms_count ms' = 1 \<and> ms_duration ms' = [40] \<and> ms_failed ms' = 1
      \<and> ms_statusCodes ms' 503 = Some 1 \<and> ms_statusCodes ms' 500 = Some 0
      \<and> phaseLevel metrics' ''home'' ''load'' 2 = None
      \<and> phaseLevel metrics' ''home'' ''load'' 1 = Some new_metric_set)"
proof -
  note t = recordMetrics_without_phase_set[where metrics = example_registry
      and api = "''home''" and scenario = "''load''" and i = 2 and ms = new_metric_set
      and res = "\<lparr>res_status = 503, res_duration = 40\<rparr>"
      and apis = "[''home'']" and scenarios = "[''load'']"
      and scenarioConfig = "[''load'' \<mapsto> two_phase_config]"]
  have hyp: "''home'' \<in> set [''home''] \<and> ''load'' \<in> set [''load'']
      \<and> declaredPhases [''load'' \<mapsto> two_phase_config] ''load'' \<le> 2"
    by (simp add: declaredPhases_example)
  from t[THEN conjunct2, THEN mp, OF hyp]
  have sl: "scenarioLevel example_registry ''home'' ''load'' = Some new_metric_set"
    and pl: "phaseLevel example_registry ''home'' ''load'' 2 = None"
    by (simp_all only: example_registry_def)
  have p1: "phaseLevel example_registry ''home'' ''load'' 1 = Some new_metric_set"
    by (simp add: example_registry_def phaseLevel_initializeMetrics declaredPhases_example)
  from t[THEN conjunct1, THEN mp, OF conjI[OF sl pl]] obtain metrics' ms' where
    r: "recordMetrics example_registry ''home'' ''load'' (Some 2)
          \<lparr>res_status = 503, res_duration = 40\<rparr> = Inr metrics'"
      "scenarioLevel metrics' ''home'' ''load'' = Some ms'"
      "ms_count ms' = ms_count new_metric_set + 1"
      "ms_duration ms' = ms_duration new_metric_set @ [res_duration \<lparr>res_status = 503, res_duration = 40\<rparr>]"
      "ms_failed ms' = (if 400 \<le> res_status \<lparr>res_status = 503, res_duration = 40\<rparr>
          then ms_failed new_metric_set + 1 else ms_failed new_metric_set)"
      "\<forall>code. ms_statusCodes ms' code =
              (if 400 \<le> res_status \<lparr>res_status = 503, res_duration = 40\<rparr>
                  \<and> code = res_status \<lparr>res_status = 503, res_duration = 40\<rparr>
               then map_option (\<lambda>n. n + 1) (ms_statusCodes new_metric_set code)
               else ms_statusCodes new_metric_set code)"
      "\<forall>a s j. phaseLevel metrics' a s j = phaseLevel example_registry a s j"
    by blast
  have vals: "ms_count ms' = 1 \<and> ms_duration ms' = [40] \<and> ms_failed ms' = 1
      \<and> ms_statusCodes ms' 503 = Some 1 \<and> ms_statusCodes ms' 500 = Some 0"
    using r(3-6) by (simp add: new_statusCodes statusCodes_def) (simp add: new_metric_set_def)
  from r(7) pl p1 have ph: "phaseLevel metrics' ''home'' ''load'' 2 = None"
      "phaseLevel metrics' ''home'' ''load'' 1 = Some new_metric_set"
    by simp_all
  from sl pl p1 r(1,2) vals ph show ?thesis by blast
qed

text \<open>
  Claim C9 requires a call for an unregistered key to return without an effect. The guard
  \<^verbatim>\<open>if (metrics[scenario]?.[api])\<close> does not give that for the API name \<^verbatim>\<open>phases\<close>: when no
  API of that name is registered, \<^verbatim>\<open>metrics[scenario].phases\<close> is the object of the phase
  indexes, the guard holds, and \<^verbatim>\<open>.count.add(1)\<close> raises a TypeError.
\<close>

theorem recordMetrics_phases_name_TypeError:
  "scenarioLevel example_registry ''phases'' ''load'' = None
   \<and> phaseLevel example_registry ''phases'' ''load'' 0 = None
   \<and> recordMetrics example_registry ''phases'' ''load'' None \<lparr>res_status = 200, res_duration = 5\<rparr>
       = Inl TypeError"
  by (simp add: example_registry_def scenarioLevel_initializeMetrics phaseLevel_initializeMetrics
      recordMetrics_def record_scenario_level_def initializeMetrics_scenario init_scenario_lookup)

text \<open>For every other unregistered API name the call changes nothing, whatever the scenario
  and the phase index.\<close>

lemma recordMetrics_unregistered_initialized:
  assumes "api \<notin> set apis" and "api \<noteq> ''phases''"
  shows "recordMetrics (initializeMetrics apis scenarios scenarioConfig) api scenario phaseIndex res
           = Inr (initializeMetrics apis scenarios scenarioConfig)"
proof (rule recordMetrics_no_object)
  from assms show "initializeMetrics apis scenarios scenarioConfig scenario = None \<or>
      (\<exists>sm. initializeMetrics apis scenarios scenarioConfig scenario = Some sm \<and> sm api = None)"
    by (simp add: initializeMetrics_scenario init_scenario_lookup)
next
  from assms(1) show "phaseIndex = None \<or> (\<exists>i. phaseIndex = Some i \<and>
      phaseLevel (initializeMetrics apis scenarios scenarioConfig) api scenario i = None)"
    by (cases phaseIndex) (simp_all add: phaseLevel_initializeMetrics)
qed

section \<open>Properties of the table builders\<close>





































section \<open>Properties of the error distribution\<close>
















end
